theory Spec2Isabelle
  imports Main "HOL-Library.Word"
begin

unbundle bit_operations_syntax

section \<open>Machine types and error numbers\<close>

text \<open>
  A C \<open>int\<close> and the kernel's \<open>atomic_t\<close> are 32 bits wide; arithmetic on them wraps
  and comparisons read them as two's complement (\<open>sint\<close>, \<open><s\<close>).  An
  \<open>unsigned long\<close> is taken 64 bits wide; only single bits of it are read or
  written below.  The absolute time type \<open>nanosecs_abs_t\<close> is an unsigned
  64-bit count.  Pointers are
  addresses, \<open>NULL\<close> is address 0.
\<close>

type_synonym c_int = "32 word"
type_synonym c_ulong = "64 word"
type_synonym nanosecs_abs_t = "64 word"
type_synonym addr = nat

definition NULL :: addr where
  "NULL = 0"

text \<open>
  The error numbers come from the host kernel's \<open>errno.h\<close>, which is not part of the
  driver sources; the values are those of the generic Linux table.  Handlers return
  them negated, as plain integers.
\<close>

definition ENOMEM :: int where "ENOMEM = 12"
definition EINVAL :: int where "EINVAL = 22"
definition ENOSYS :: int where "ENOSYS = 38"
definition ENOPROTOOPT :: int where "ENOPROTOOPT = 92"
definition EPROTONOSUPPORT :: int where "EPROTONOSUPPORT = 93"

section \<open>Driver versioning (rtdm\_driver.h)\<close>

text \<open>
  \<^verbatim>\<open>#define RTDM_DRIVER_VER(major, minor, patch) \
	(((major & 0xFF) << 16) | ((minor & 0xFF) << 8) | (patch & 0xFF))
  #define RTDM_DRIVER_MAJOR_VER(ver)	(((ver) >> 16) & 0xFF)
  #define RTDM_DRIVER_MINOR_VER(ver)	(((ver) >> 8) & 0xFF)
  #define RTDM_DRIVER_PATCH_VER(ver)	((ver) & 0xFF)\<close>
  The operands are C ints; \<open>>>\<close> on a signed int is the arithmetic shift.
\<close>

definition RTDM_DRIVER_VER :: "c_int \<Rightarrow> c_int \<Rightarrow> c_int \<Rightarrow> c_int" where
  "RTDM_DRIVER_VER major minor patch =
     (push_bit 16 (major AND 0xFF) OR push_bit 8 (minor AND 0xFF)) OR (patch AND 0xFF)"

definition RTDM_DRIVER_MAJOR_VER :: "c_int \<Rightarrow> c_int" where
  "RTDM_DRIVER_MAJOR_VER ver = signed_drop_bit 16 ver AND 0xFF"

definition RTDM_DRIVER_MINOR_VER :: "c_int \<Rightarrow> c_int" where
  "RTDM_DRIVER_MINOR_VER ver = signed_drop_bit 8 ver AND 0xFF"

definition RTDM_DRIVER_PATCH_VER :: "c_int \<Rightarrow> c_int" where
  "RTDM_DRIVER_PATCH_VER ver = ver AND 0xFF"

section \<open>Task sleeping services (rtdm\_driver.h)\<close>

text \<open>
  \<^verbatim>\<open>enum rtdm_timer_mode {
	RTDM_TIMERMODE_RELATIVE = XN_RELATIVE,
	RTDM_TIMERMODE_ABSOLUTE = XN_ABSOLUTE,
	RTDM_TIMERMODE_REALTIME = XN_REALTIME
  };\<close>
  A value of an enumeration type is a C int: a caller can pass any of them as the mode,
  not only the three enumerators.  So a mode is a \<open>c_int\<close>, and so is a mode of the
  nucleus, \<open>xntmode_t\<close>; the cast \<open>(xntmode_t)mode\<close> keeps the value.

  The nucleus enumerators \<open>XN_RELATIVE\<close>, \<open>XN_ABSOLUTE\<close> and \<open>XN_REALTIME\<close>
  are declared outside the driver header.  Their values are a parameter; the RTDM
  enumerators are defined from them as the header does.
\<close>

type_synonym xntmode_t = c_int

type_synonym rtdm_timer_mode = c_int

record xntmode_values =
  XN_RELATIVE :: xntmode_t
  XN_ABSOLUTE :: xntmode_t
  XN_REALTIME :: xntmode_t

definition RTDM_TIMERMODE_RELATIVE :: "xntmode_values \<Rightarrow> rtdm_timer_mode" where
  "RTDM_TIMERMODE_RELATIVE xn = XN_RELATIVE xn"

definition RTDM_TIMERMODE_ABSOLUTE :: "xntmode_values \<Rightarrow> rtdm_timer_mode" where
  "RTDM_TIMERMODE_ABSOLUTE xn = XN_ABSOLUTE xn"

definition RTDM_TIMERMODE_REALTIME :: "xntmode_values \<Rightarrow> rtdm_timer_mode" where
  "RTDM_TIMERMODE_REALTIME xn = XN_REALTIME xn"

text \<open>
  \<^verbatim>\<open>static inline int
  rtdm_task_sleep_abs(nanosecs_abs_t wakeup_date, enum rtdm_timer_mode mode)
  {
	if (mode != RTDM_TIMERMODE_ABSOLUTE && mode != RTDM_TIMERMODE_REALTIME)
		return -EINVAL;
	return __rtdm_task_sleep(wakeup_date, (xntmode_t)mode);
  }\<close>
  \<open>__rtdm_task_sleep\<close> is only declared in the header.  It is the parameter
  \<open>task_sleep\<close>: a service that takes the timeout and the mode and acts on the
  state \<open>'w\<close> of the scheduler, returning its status code.
\<close>

type_synonym 'w sleep_service = "nanosecs_abs_t \<Rightarrow> xntmode_t \<Rightarrow> 'w \<Rightarrow> int \<times> 'w"

definition rtdm_task_sleep_abs ::
  "xntmode_values \<Rightarrow> 'w sleep_service \<Rightarrow> nanosecs_abs_t \<Rightarrow> rtdm_timer_mode \<Rightarrow> 'w
     \<Rightarrow> int \<times> 'w" where
  "rtdm_task_sleep_abs xn task_sleep wakeup_date mode w =
     (if mode \<noteq> RTDM_TIMERMODE_ABSOLUTE xn \<and> mode \<noteq> RTDM_TIMERMODE_REALTIME xn
      then (- EINVAL, w)
      else task_sleep wakeup_date mode w)"

text \<open>
  For running the function on concrete inputs: the enumerators numbered 0, 1, 2 in the
  order of their declaration, and a sleep service that records every request it
  receives.
\<close>

definition xntmode_numbering :: xntmode_values where
  "xntmode_numbering = \<lparr>XN_RELATIVE = 0, XN_ABSOLUTE = 1, XN_REALTIME = 2\<rparr>"

definition logging_sleep :: "(nanosecs_abs_t \<times> xntmode_t) list sleep_service" where
  "logging_sleep timeout mode w = (0, w @ [(timeout, mode)])"

section \<open>Device context locking (rtdm\_driver.h)\<close>

text \<open>
  Context flags are bit numbers of \<open>context_flags\<close>:
  \<^verbatim>\<open>#define RTDM_CREATED_IN_NRT		0
  #define RTDM_CLOSING			1\<close>
  Of \<open>struct rtdm_dev_context\<close> the locking services read and write two fields, the
  flags word and the atomic lock counter.
\<close>

definition RTDM_CREATED_IN_NRT :: nat where
  "RTDM_CREATED_IN_NRT = 0"

definition RTDM_CLOSING :: nat where
  "RTDM_CLOSING = 1"

record rtdm_dev_context =
  context_flags :: c_ulong
  close_lock_count :: c_int

text \<open>
  What the locking services do outside the context: \<open>rthal_apc_schedule(rtdm_apc)\<close>
  asks for the deferred finalization to run, and a failed \<open>XENO_ASSERT\<close> logs a
  warning in a debug build.  Both services belong to layers outside the driver header;
  the kernel state counts the requests and the warnings.
\<close>

record rtdm_kernel =
  apc_requests :: nat
  assert_failures :: nat

definition test_bit :: "nat \<Rightarrow> c_ulong \<Rightarrow> bool" where
  "test_bit nr flags = bit flags nr"

text \<open>
  \<^verbatim>\<open>#define CONTEXT_IS_LOCKED(context) \
	(atomic_read(&(context)->close_lock_count) > 1 || \
	 (test_bit(RTDM_CLOSING, &(context)->context_flags) && \
	  atomic_read(&(context)->close_lock_count) > 0))\<close>
\<close>

definition CONTEXT_IS_LOCKED :: "rtdm_dev_context \<Rightarrow> bool" where
  "CONTEXT_IS_LOCKED context =
     (1 <s close_lock_count context \<or>
      (test_bit RTDM_CLOSING (context_flags context) \<and> 0 <s close_lock_count context))"

text \<open>
  \<open>XENO_ASSERT(RTDM, cond, /* just warn ... */)\<close>: the action is empty, so a failed
  assertion is recorded and control continues.
\<close>

definition XENO_ASSERT :: "bool \<Rightarrow> rtdm_kernel \<Rightarrow> rtdm_kernel" where
  "XENO_ASSERT cond k = (if cond then k else k\<lparr>assert_failures := Suc (assert_failures k)\<rparr>)"

definition rthal_apc_schedule :: "rtdm_kernel \<Rightarrow> rtdm_kernel" where
  "rthal_apc_schedule k = k\<lparr>apc_requests := Suc (apc_requests k)\<rparr>"

definition atomic_inc :: "c_int \<Rightarrow> c_int" where
  "atomic_inc v = v + 1"

text \<open>\<open>atomic_dec_and_test\<close> decrements and tells whether the result is zero.\<close>

definition atomic_dec_and_test :: "c_int \<Rightarrow> c_int \<times> bool" where
  "atomic_dec_and_test v = (v - 1, v - 1 = 0)"

text \<open>
  \<^verbatim>\<open>static inline void rtdm_context_lock(struct rtdm_dev_context *context)
  {
	XENO_ASSERT(RTDM, CONTEXT_IS_LOCKED(context), /* just warn ... */);
	atomic_inc(&context->close_lock_count);
  }\<close>
\<close>

definition rtdm_context_lock ::
  "rtdm_dev_context \<Rightarrow> rtdm_kernel \<Rightarrow> rtdm_dev_context \<times> rtdm_kernel" where
  "rtdm_context_lock context k =
     (let k1 = XENO_ASSERT (CONTEXT_IS_LOCKED context) k
      in (context\<lparr>close_lock_count := atomic_inc (close_lock_count context)\<rparr>, k1))"

text \<open>
  \<^verbatim>\<open>static inline void rtdm_context_unlock(struct rtdm_dev_context *context)
  {
	XENO_ASSERT(RTDM, CONTEXT_IS_LOCKED(context), /* just warn ... */);
	smp_mb__before_atomic_dec();
	if (unlikely(atomic_dec_and_test(&context->close_lock_count)))
		rthal_apc_schedule(rtdm_apc);
  }
  static inline void rtdm_context_put(struct rtdm_dev_context *context)
  {
	rtdm_context_unlock(context);
  }\<close>
\<close>

definition rtdm_context_unlock ::
  "rtdm_dev_context \<Rightarrow> rtdm_kernel \<Rightarrow> rtdm_dev_context \<times> rtdm_kernel" where
  "rtdm_context_unlock context k =
     (let k1 = XENO_ASSERT (CONTEXT_IS_LOCKED context) k;
          (v, is_zero) = atomic_dec_and_test (close_lock_count context);
          context1 = context\<lparr>close_lock_count := v\<rparr>
      in if is_zero then (context1, rthal_apc_schedule k1) else (context1, k1))"

definition rtdm_context_put ::
  "rtdm_dev_context \<Rightarrow> rtdm_kernel \<Rightarrow> rtdm_dev_context \<times> rtdm_kernel" where
  "rtdm_context_put context k = rtdm_context_unlock context k"

text \<open>
  The specification's wording of unlock, for comparison with the code: decrement; if
  the result is zero and \<open>closing\<close> is set, schedule the finalization; otherwise
  nothing more.
\<close>

definition spec_unlock ::
  "rtdm_dev_context \<Rightarrow> rtdm_kernel \<Rightarrow> rtdm_dev_context \<times> rtdm_kernel" where
  "spec_unlock context k =
     (let context1 = context\<lparr>close_lock_count := close_lock_count context - 1\<rparr>
      in if close_lock_count context1 = 0 \<and> test_bit RTDM_CLOSING (context_flags context1)
         then (context1, k\<lparr>apc_requests := Suc (apc_requests k)\<rparr>)
         else (context1, k))"

text \<open>
  Modelled from the spec: the close request is in the RTDM core, which is not among the
  sources.  \<open>request_close\<close> sets the \<open>closing\<close> flag, then performs one
  unlock, dropping the reference acquired at open.  The unlock is the header's.
\<close>

definition request_close ::
  "rtdm_dev_context \<Rightarrow> rtdm_kernel \<Rightarrow> rtdm_dev_context \<times> rtdm_kernel" where
  "request_close context k =
     rtdm_context_unlock
       (context\<lparr>context_flags := set_bit RTDM_CLOSING (context_flags context)\<rparr>) k"

text \<open>
  Modelled from the spec: the creation of a context is in the RTDM core.  A new context
  has lock count 1 and its flags cleared, except \<open>created-in-non-realtime\<close> if
  the creation ran outside the real-time domain.
\<close>

definition context_open :: "bool \<Rightarrow> rtdm_dev_context" where
  "context_open nrt =
     \<lparr>context_flags = (if nrt then set_bit RTDM_CREATED_IN_NRT 0 else 0),
      close_lock_count = 1\<rparr>"

definition kernel_boot :: rtdm_kernel where
  "kernel_boot = \<lparr>apc_requests = 0, assert_failures = 0\<rparr>"

text \<open>Sequences of operations on one context, run from left to right.\<close>

datatype context_op = Lock | Unlock | Request_close

fun exec_op ::
  "context_op \<Rightarrow> rtdm_dev_context \<times> rtdm_kernel \<Rightarrow> rtdm_dev_context \<times> rtdm_kernel" where
  "exec_op Lock (c, k) = rtdm_context_lock c k"
| "exec_op Unlock (c, k) = rtdm_context_unlock c k"
| "exec_op Request_close (c, k) = request_close c k"

fun run ::
  "context_op list \<Rightarrow> rtdm_dev_context \<times> rtdm_kernel \<Rightarrow> rtdm_dev_context \<times> rtdm_kernel" where
  "run [] s = s"
| "run (op # ops) s = run ops (exec_op op s)"

text \<open>
  The conditions of use: a lock is taken only on a context whose count is still
  positive (not on a fully closed one), an unlock is issued only where the asserted
  \<open>CONTEXT_IS_LOCKED\<close> holds, and a close is requested only while the
  \<open>closing\<close> flag is clear, hence once.
\<close>

fun admissible :: "context_op \<Rightarrow> rtdm_dev_context \<times> rtdm_kernel \<Rightarrow> bool" where
  "admissible Lock (c, k) = (0 <s close_lock_count c)"
| "admissible Unlock (c, k) = CONTEXT_IS_LOCKED c"
| "admissible Request_close (c, k) = (\<not> test_bit RTDM_CLOSING (context_flags c))"

fun run_ok :: "context_op list \<Rightarrow> rtdm_dev_context \<times> rtdm_kernel \<Rightarrow> bool" where
  "run_ok [] s = True"
| "run_ok (op # ops) s = (admissible op s \<and> run_ok ops (exec_op op s))"

definition state_after ::
  "nat \<Rightarrow> context_op list \<Rightarrow> bool \<Rightarrow> rtdm_dev_context \<times> rtdm_kernel" where
  "state_after n ops nrt = run (take n ops) (context_open nrt, kernel_boot)"

text \<open>A step schedules the finalization when it raises the request count by one.\<close>

definition apc_step ::
  "rtdm_dev_context \<times> rtdm_kernel \<Rightarrow> rtdm_dev_context \<times> rtdm_kernel \<Rightarrow> bool" where
  "apc_step s s' = (apc_requests (snd s') = Suc (apc_requests (snd s)))"

text \<open>The invariant of admissible runs; \<open>b\<close> bounds the count.\<close>

definition lifecycle_inv :: "int \<Rightarrow> rtdm_dev_context \<times> rtdm_kernel \<Rightarrow> bool" where
  "lifecycle_inv b s =
     (0 \<le> sint (close_lock_count (fst s)) \<and> sint (close_lock_count (fst s)) \<le> b
      \<and> apc_requests (snd s) = (if close_lock_count (fst s) = 0 then 1 else 0)
      \<and> (test_bit RTDM_CLOSING (context_flags (fst s)) \<or> 1 \<le> sint (close_lock_count (fst s))))"

section \<open>The system heap (heap.h)\<close>

text \<open>
  Modelled from the spec: \<open>struct xnheap\<close> is used through its two services,
  which heap.h declares and does not define.  The heap knows how much it can still
  serve, its live blocks with their sizes, the last address it gave out and, for
  inspection, every pointer that was handed to \<open>xnheap_free\<close>, latest first.
\<close>

record xnheap =
  heap_avail :: nat
  heap_blocks :: "(addr \<times> nat) list"
  heap_brk :: addr
  heap_frees :: "addr list"

text \<open>
  Modelled from the spec: \<open>xnheap_alloc\<close> is \<open>alloc(size) -> pointer | NoMemory\<close>.
  A request larger than what is available returns \<open>NULL\<close> and leaves the heap as
  it is; a served request returns a new non-null block.
\<close>

definition xnheap_alloc :: "xnheap \<Rightarrow> nat \<Rightarrow> addr \<times> xnheap" where
  "xnheap_alloc heap sz =
     (if heap_avail heap < sz then (NULL, heap)
      else (let block = Suc (heap_brk heap)
            in (block, heap\<lparr>heap_avail := heap_avail heap - sz,
                            heap_blocks := (block, sz) # heap_blocks heap,
                            heap_brk := block\<rparr>)))"

text \<open>
  Modelled from the spec: \<open>xnheap_free\<close> is \<open>free(pointer)\<close>.  A live block
  goes back to the heap; a pointer that is not a live block is refused with an error
  status, which the callers below ignore.
\<close>

definition xnheap_free :: "xnheap \<Rightarrow> addr \<Rightarrow> int \<times> xnheap" where
  "xnheap_free heap block =
     (case map_of (heap_blocks heap) block of
        None \<Rightarrow> (- EINVAL, heap\<lparr>heap_frees := block # heap_frees heap\<rparr>)
      | Some sz \<Rightarrow>
          (0, heap\<lparr>heap_avail := heap_avail heap + sz,
                   heap_blocks := filter (\<lambda>b. fst b \<noteq> block) (heap_blocks heap),
                   heap_frees := block # heap_frees heap\<rparr>))"

text \<open>
  \<^verbatim>\<open>#define xnmalloc(size)     xnheap_alloc(&kheap,size)
  #define xnfree(ptr)        xnheap_free(&kheap,ptr)\<close>
\<close>

definition xnmalloc :: "xnheap \<Rightarrow> nat \<Rightarrow> addr \<times> xnheap" where
  "xnmalloc kheap sz = xnheap_alloc kheap sz"

definition xnfree :: "xnheap \<Rightarrow> addr \<Rightarrow> int \<times> xnheap" where
  "xnfree kheap ptr = xnheap_free kheap ptr"

section \<open>The RTIPC driver (rtipc.c)\<close>

text \<open>
  The private area of an RTIPC context holds two pointers, the protocol descriptor
  \<open>proto\<close> and the protocol state buffer \<open>state\<close>.  What a handler can reach
  is the private area, the system heap and the protocol's own data \<open>'w\<close>.
\<close>

record rtipc_private =
  proto :: addr
  state :: addr

record 'w rtipc_state =
  priv :: rtipc_private
  kheap :: xnheap
  drv :: 'w

text \<open>
  A protocol descriptor (\<open>struct rtipc_protocol\<close>): the size of its state and its
  handlers, of which \<open>rtipc_socket\<close> and \<open>rtipc_close\<close> call \<open>socket\<close> and
  \<open>close\<close>.  A handler receives the private area and the \<open>user_info\<close> pointer and
  returns its status.
\<close>

record 'w rtipc_protocol =
  proto_statesz :: nat
  proto_ops_socket :: "addr \<Rightarrow> 'w rtipc_state \<Rightarrow> int \<times> 'w rtipc_state"
  proto_ops_close :: "addr \<Rightarrow> 'w rtipc_state \<Rightarrow> int \<times> 'w rtipc_state"

text \<open>
  \<^verbatim>\<open>static struct rtipc_protocol *protocols[IPCPROTO_MAX] = {
  #ifdef CONFIG_XENO_DRIVERS_RTIPC_XDDP
	[IPCPROTO_XDDP - 1] = &xddp_proto_driver,
  #endif
  #ifdef CONFIG_XENO_DRIVERS_RTIPC_IDDP
	[IPCPROTO_IDDP - 1] = &iddp_proto_driver,
  #endif
  };\<close>
  The protocol numbers are an enumeration of rtdm/rtipc.h and the descriptors are
  objects of the protocol drivers, neither among the sources.  They are parameters: the
  numbers, the table as the list of its slots (\<open>NULL\<close> where a protocol is not
  compiled in) and the memory holding the descriptors.
\<close>

record 'w rtipc_module =
  IPCPROTO_IPC :: int
  IPCPROTO_IDDP :: int
  IPCPROTO_MAX :: int
  protocols :: "addr list"
  descriptor_at :: "addr \<Rightarrow> 'w rtipc_protocol"

text \<open>A read of \<open>protocols[i]\<close>; outside the array C gives no meaning to it.\<close>

datatype fault = Out_of_bounds

definition protocols_read :: "addr list \<Rightarrow> int \<Rightarrow> fault + addr" where
  "protocols_read table i =
     (if 0 \<le> i \<and> i < int (length table) then Inr (table ! nat i) else Inl Out_of_bounds)"

text \<open>
  \<^verbatim>\<open>static int rtipc_socket(struct rtdm_dev_context *context,
			rtdm_user_info_t *user_info, int protocol)
  {
	struct rtipc_protocol *proto;
	struct rtipc_private *p;

	if (protocol < 0 || protocol >= IPCPROTO_MAX)
		return -EPROTONOSUPPORT;

	if (protocol == IPCPROTO_IPC)
		/* Default protocol is IDDP */
		protocol = IPCPROTO_IDDP;

	proto = protocols[protocol - 1];
	if (proto == NULL)	/* Not compiled in? */
		return -ENOPROTOOPT;

	p = rtdm_context_to_private(context);
	p->proto = proto;
	p->state = xnmalloc(proto->proto_statesz);
	if (p->state == NULL)
		return -ENOMEM;

	return proto->proto_ops.socket(p, user_info);
  }\<close>
\<close>

definition default_protocol :: "'w rtipc_module \<Rightarrow> int \<Rightarrow> int" where
  "default_protocol m protocol =
     (if protocol = IPCPROTO_IPC m then IPCPROTO_IDDP m else protocol)"

definition rtipc_socket ::
  "'w rtipc_module \<Rightarrow> addr \<Rightarrow> int \<Rightarrow> 'w rtipc_state \<Rightarrow> (fault + int) \<times> 'w rtipc_state" where
  "rtipc_socket m user_info protocol s =
     (if protocol < 0 \<or> IPCPROTO_MAX m \<le> protocol then (Inr (- EPROTONOSUPPORT), s)
      else
        (case protocols_read (protocols m) (default_protocol m protocol - 1) of
           Inl f \<Rightarrow> (Inl f, s)
         | Inr proto_ptr \<Rightarrow>
             if proto_ptr = NULL then (Inr (- ENOPROTOOPT), s)
             else
               (let (ptr, heap) = xnmalloc (kheap s) (proto_statesz (descriptor_at m proto_ptr));
                    s1 = s\<lparr>priv := \<lparr>proto = proto_ptr, state = ptr\<rparr>, kheap := heap\<rparr>
                in if ptr = NULL then (Inr (- ENOMEM), s1)
                   else (let (ret, s2) = proto_ops_socket (descriptor_at m proto_ptr) user_info s1
                         in (Inr ret, s2)))))"

text \<open>
  \<^verbatim>\<open>static int rtipc_close(struct rtdm_dev_context *context,
		       rtdm_user_info_t *user_info)
  {
	struct rtipc_private *p;
	int ret;

	p = rtdm_context_to_private(context);
	ret = p->proto->proto_ops.close(p, user_info);
	if (ret)
		return ret;

	xnfree(p->state);

	return 0;
  }\<close>
\<close>

definition rtipc_close :: "'w rtipc_module \<Rightarrow> addr \<Rightarrow> 'w rtipc_state \<Rightarrow> int \<times> 'w rtipc_state" where
  "rtipc_close m user_info s =
     (let (ret, s1) = proto_ops_close (descriptor_at m (proto (priv s))) user_info s
      in if ret \<noteq> 0 then (ret, s1)
         else (let (r, heap) = xnfree (kheap s1) (state (priv s1))
               in (0, s1\<lparr>kheap := heap\<rparr>)))"

text \<open>
  A build for running the driver: the protocol numbers 0, 1, 2 and the bound 3, the
  datagram protocol compiled in at address 4096 and the other slot empty.  Its protocol
  keeps a count of open sockets; both handlers succeed every time and leave the private
  area alone.
\<close>

definition iddp_proto_driver :: "nat rtipc_protocol" where
  "iddp_proto_driver =
     \<lparr>proto_statesz = 64,
      proto_ops_socket = (\<lambda>user_info s. (0, s\<lparr>drv := Suc (drv s)\<rparr>)),
      proto_ops_close = (\<lambda>user_info s. (0, s\<lparr>drv := drv s - 1\<rparr>))\<rparr>"

definition rtipc_build :: "nat rtipc_module" where
  "rtipc_build =
     \<lparr>IPCPROTO_IPC = 0, IPCPROTO_IDDP = 2, IPCPROTO_MAX = 3,
      protocols = [NULL, 4096],
      descriptor_at = (\<lambda>a. iddp_proto_driver)\<rparr>"

definition rtipc_boot :: "nat \<Rightarrow> nat rtipc_state" where
  "rtipc_boot avail =
     \<lparr>priv = \<lparr>proto = NULL, state = NULL\<rparr>,
      kheap = \<lparr>heap_avail = avail, heap_blocks = [], heap_brk = 0, heap_frees = []\<rparr>,
      drv = 0\<rparr>"

section \<open>Operation tables and their dispatch\<close>

text \<open>
  \<open>struct rtdm_operations\<close> (rtdm\_driver.h): one entry point per operation and
  execution context, \<open>NULL\<close> where the driver provides none.  Handlers are of type
  \<open>'h\<close>; an absent handler is \<open>None\<close>.
\<close>

record 'h rtdm_operations =
  close_rt :: "'h option"
  close_nrt :: "'h option"
  ioctl_rt :: "'h option"
  ioctl_nrt :: "'h option"
  select_bind :: "'h option"
  read_rt :: "'h option"
  read_nrt :: "'h option"
  write_rt :: "'h option"
  write_nrt :: "'h option"
  recvmsg_rt :: "'h option"
  recvmsg_nrt :: "'h option"
  sendmsg_rt :: "'h option"
  sendmsg_nrt :: "'h option"

text \<open>
  The table of the RTIPC device (rtipc.c):
  \<^verbatim>\<open>.ops = {
	.close_rt	=	rtipc_close,
	.close_nrt	=	rtipc_close,
	.recvmsg_rt	=	rtipc_recvmsg,
	.recvmsg_nrt	=	NULL,
	.sendmsg_rt	=	rtipc_sendmsg,
	.sendmsg_nrt	=	NULL,
	.ioctl_rt	=	rtipc_ioctl,
	.ioctl_nrt	=	rtipc_ioctl,
	.read_rt	=	rtipc_read,
	.read_nrt	=	NULL,
	.write_rt	=	rtipc_write,
	.write_nrt	=	NULL,
  },\<close>
  \<open>select_bind\<close> is not initialized, hence \<open>NULL\<close>.
\<close>

datatype rtipc_handler =
  Rtipc_close | Rtipc_recvmsg | Rtipc_sendmsg | Rtipc_ioctl | Rtipc_read | Rtipc_write

definition rtipc_device_ops :: "rtipc_handler rtdm_operations" where
  "rtipc_device_ops =
     \<lparr>close_rt = Some Rtipc_close,
      close_nrt = Some Rtipc_close,
      ioctl_rt = Some Rtipc_ioctl,
      ioctl_nrt = Some Rtipc_ioctl,
      select_bind = None,
      read_rt = Some Rtipc_read,
      read_nrt = None,
      write_rt = Some Rtipc_write,
      write_nrt = None,
      recvmsg_rt = Some Rtipc_recvmsg,
      recvmsg_nrt = None,
      sendmsg_rt = Some Rtipc_sendmsg,
      sendmsg_nrt = None\<rparr>"

text \<open>The two execution contexts and the operations that have a variant for each.\<close>

datatype exec_context = Real_time | Non_real_time

datatype operation = Op_close | Op_ioctl | Op_read | Op_write | Op_recvmsg | Op_sendmsg

fun opposite :: "exec_context \<Rightarrow> exec_context" where
  "opposite Real_time = Non_real_time"
| "opposite Non_real_time = Real_time"

fun variant :: "'h rtdm_operations \<Rightarrow> operation \<Rightarrow> exec_context \<Rightarrow> 'h option" where
  "variant ops Op_close Real_time = close_rt ops"
| "variant ops Op_close Non_real_time = close_nrt ops"
| "variant ops Op_ioctl Real_time = ioctl_rt ops"
| "variant ops Op_ioctl Non_real_time = ioctl_nrt ops"
| "variant ops Op_read Real_time = read_rt ops"
| "variant ops Op_read Non_real_time = read_nrt ops"
| "variant ops Op_write Real_time = write_rt ops"
| "variant ops Op_write Non_real_time = write_nrt ops"
| "variant ops Op_recvmsg Real_time = recvmsg_rt ops"
| "variant ops Op_recvmsg Non_real_time = recvmsg_nrt ops"
| "variant ops Op_sendmsg Real_time = sendmsg_rt ops"
| "variant ops Op_sendmsg Non_real_time = sendmsg_nrt ops"

text \<open>
  Modelled from the spec: the dispatcher is in the RTDM core, which is not among the
  sources.  Given the caller's context C and an operation: (1) if the variant matching C
  exists, invoke it; (2) else, if the variant for the opposite context exists, marshal
  the call into that context and invoke it there; (3) else fail with NotSupported;
  (4) if the invoked handler returns the sentinel (\<open>-ENOSYS\<close>, by the handler
  documentation of rtdm\_driver.h), go on as if its variant were absent, that context
  now being excluded from retry; a sentinel from the only context left is NotSupported.

  \<open>call h c\<close> is what handler \<open>h\<close> returns when run in context \<open>c\<close>.  The
  dispatcher returns the invocations it made, each with the context it ran in, and the
  outcome.
\<close>

datatype dispatch_outcome = Handled int | NotSupported

text \<open>
  Modelled from the spec: a handler invoked in the last context left; its sentinel
  surfaces as NotSupported (step 4).
\<close>

definition invoke_in ::
  "('h \<Rightarrow> exec_context \<Rightarrow> int) \<Rightarrow> exec_context \<Rightarrow> 'h \<Rightarrow>
     (exec_context \<times> 'h) list \<times> dispatch_outcome" where
  "invoke_in call c h =
     (if call h c = - ENOSYS then ([(c, h)], NotSupported) else ([(c, h)], Handled (call h c)))"

text \<open>
  Modelled from the spec: steps 2 and 3, the variant of the opposite context or
  NotSupported.
\<close>

definition dispatch_opposite ::
  "('h \<Rightarrow> exec_context \<Rightarrow> int) \<Rightarrow> 'h rtdm_operations \<Rightarrow> operation \<Rightarrow> exec_context \<Rightarrow>
     (exec_context \<times> 'h) list \<times> dispatch_outcome" where
  "dispatch_opposite call ops operation c =
     (case variant ops operation (opposite c) of
        None \<Rightarrow> ([], NotSupported)
      | Some h \<Rightarrow> invoke_in call (opposite c) h)"

text \<open>
  Modelled from the spec: step 1, and step 4 for a matching variant that returns the
  sentinel.
\<close>

definition dispatch ::
  "('h \<Rightarrow> exec_context \<Rightarrow> int) \<Rightarrow> 'h rtdm_operations \<Rightarrow> operation \<Rightarrow> exec_context \<Rightarrow>
     (exec_context \<times> 'h) list \<times> dispatch_outcome" where
  "dispatch call ops operation c =
     (case variant ops operation c of
        Some h \<Rightarrow>
          if call h c = - ENOSYS
          then (let (calls, outcome) = dispatch_opposite call ops operation c
                in ((c, h) # calls, outcome))
          else ([(c, h)], Handled (call h c))
      | None \<Rightarrow> dispatch_opposite call ops operation c)"

text \<open>
  An invocation is in the right domain when the handler run in a context is the one
  the table holds for that context.
\<close>

definition right_domain ::
  "'h rtdm_operations \<Rightarrow> operation \<Rightarrow> exec_context \<times> 'h \<Rightarrow> bool" where
  "right_domain ops operation call_made =
     (variant ops operation (fst call_made) = Some (snd call_made))"

text \<open>Handlers that transfer a fixed number of bytes, for running the dispatcher.\<close>

fun rtipc_call :: "rtipc_handler \<Rightarrow> exec_context \<Rightarrow> int" where
  "rtipc_call Rtipc_read c = 16"
| "rtipc_call Rtipc_write c = 32"
| "rtipc_call h c = 0"

section \<open>Events, semaphores and mutexes (rtdm\_driver.h)\<close>

text \<open>
  Modelled from the spec: the synchronization object \<open>xnsynch_t\<close>, the select block
  and the wake-up reasons belong to the nucleus, which is not among the sources.  A
  synchronization object is a state word and a queue of blocked waiters, in wake-up
  order; a select block is a registry of watchers.  A woken waiter is told the reason
  as a word of information bits, of which one says that a timeout expired, one that the
  object was removed; no bit set is a plain wake-up.
\<close>

type_synonym thread = nat

record xnsynch_t =
  status :: c_ulong
  pendq :: "thread list"

type_synonym xnselect = "nat list"

text \<open>
  Modelled from the spec: the information bits and the spare status bit are constants
  of the nucleus; each is a single bit, and the first two differ.
\<close>

definition XNTIMEO :: c_ulong where "XNTIMEO = 0x1"
definition XNRMID :: c_ulong where "XNRMID = 0x2"
definition XNSYNCH_SPARE1 :: c_ulong where "XNSYNCH_SPARE1 = 0x02000000"

text \<open>\<^verbatim>\<open>#define RTDM_EVENT_PENDING		XNSYNCH_SPARE1\<close>\<close>

definition RTDM_EVENT_PENDING :: c_ulong where
  "RTDM_EVENT_PENDING = XNSYNCH_SPARE1"

text \<open>
  \<^verbatim>\<open>typedef struct { xnsynch_t synch_base; DECLARE_XNSELECT(select_block); } rtdm_event_t;
  typedef struct { unsigned long value; xnsynch_t synch_base;
                   DECLARE_XNSELECT(select_block); } rtdm_sem_t;
  typedef struct { xnsynch_t synch_base; } rtdm_mutex_t;\<close>
\<close>

record rtdm_event_t =
  event_synch_base :: xnsynch_t
  event_select_block :: xnselect

record rtdm_sem_t =
  sem_value :: c_ulong
  sem_synch_base :: xnsynch_t
  sem_select_block :: xnselect

record rtdm_mutex_t =
  mutex_synch_base :: xnsynch_t

text \<open>
  Modelled from the spec: \<open>__rtdm_synch_flush\<close> is declared in the header and
  defined in the driver library, which is not among the sources.  It wakes everyone
  currently blocked on the object, telling each the given reason, and does not touch the
  state word.  The wake-ups are returned as pairs of waiter and reason.
\<close>

type_synonym wakeup = "thread \<times> c_ulong"

definition rtdm_synch_flush :: "xnsynch_t \<Rightarrow> c_ulong \<Rightarrow> xnsynch_t \<times> wakeup list" where
  "rtdm_synch_flush synch reason =
     (synch\<lparr>pendq := []\<rparr>, map (\<lambda>t. (t, reason)) (pendq synch))"

text \<open>
  Modelled from the spec: \<open>xnselect_destroy\<close> is a service of the nucleus; the
  registry of watchers is dropped with the primitive.
\<close>

definition xnselect_destroy :: "xnselect \<Rightarrow> xnselect" where
  "xnselect_destroy select_block = []"

text \<open>
  \<^verbatim>\<open>static inline void rtdm_event_pulse(rtdm_event_t *event)
  {
	__rtdm_synch_flush(&event->synch_base, 0);
  }
  static inline void rtdm_event_destroy(rtdm_event_t *event)
  {
	__rtdm_synch_flush(&event->synch_base, XNRMID);
	xnselect_destroy(&event->select_block);
  }
  static inline void rtdm_sem_destroy(rtdm_sem_t *sem)
  {
	__rtdm_synch_flush(&sem->synch_base, XNRMID);
	xnselect_destroy(&sem->select_block);
  }
  static inline void rtdm_mutex_destroy(rtdm_mutex_t *mutex)
  {
	__rtdm_synch_flush(&mutex->synch_base, XNRMID);
  }\<close>
  (the \<open>trace_mark\<close> calls leave no trace in the state).
\<close>

definition rtdm_event_pulse :: "rtdm_event_t \<Rightarrow> rtdm_event_t \<times> wakeup list" where
  "rtdm_event_pulse event =
     (let (synch, woken) = rtdm_synch_flush (event_synch_base event) 0
      in (event\<lparr>event_synch_base := synch\<rparr>, woken))"

definition rtdm_event_destroy :: "rtdm_event_t \<Rightarrow> rtdm_event_t \<times> wakeup list" where
  "rtdm_event_destroy event =
     (let (synch, woken) = rtdm_synch_flush (event_synch_base event) XNRMID
      in (event\<lparr>event_synch_base := synch,
                event_select_block := xnselect_destroy (event_select_block event)\<rparr>, woken))"

definition rtdm_sem_destroy :: "rtdm_sem_t \<Rightarrow> rtdm_sem_t \<times> wakeup list" where
  "rtdm_sem_destroy sem =
     (let (synch, woken) = rtdm_synch_flush (sem_synch_base sem) XNRMID
      in (sem\<lparr>sem_synch_base := synch,
              sem_select_block := xnselect_destroy (sem_select_block sem)\<rparr>, woken))"

definition rtdm_mutex_destroy :: "rtdm_mutex_t \<Rightarrow> rtdm_mutex_t \<times> wakeup list" where
  "rtdm_mutex_destroy mutex =
     (let (synch, woken) = rtdm_synch_flush (mutex_synch_base mutex) XNRMID
      in (mutex\<lparr>mutex_synch_base := synch\<rparr>, woken))"

text \<open>
  Modelled from the spec: the waiting services are defined in the driver library, which
  is not among the sources.  What a blocked caller gets when it is woken: Removed if the
  object was destroyed, Timeout if its timeout expired, success otherwise.
\<close>

datatype wait_result = Success | Timeout | Removed

definition wait_result_of :: "c_ulong \<Rightarrow> wait_result" where
  "wait_result_of reason =
     (if reason AND XNRMID \<noteq> 0 then Removed
      else if reason AND XNTIMEO \<noteq> 0 then Timeout
      else Success)"

text \<open>
  Modelled from the spec: \<open>wait()\<close> on an event blocks until the pending bit is
  set, then clears it before returning; a caller that finds the bit clear joins the
  queue of waiters.
\<close>

datatype wait_step = Returned wait_result | Blocked

definition rtdm_event_wait :: "rtdm_event_t \<Rightarrow> thread \<Rightarrow> rtdm_event_t \<times> wait_step" where
  "rtdm_event_wait event t =
     (let synch = event_synch_base event
      in if status synch AND RTDM_EVENT_PENDING \<noteq> 0
         then (event\<lparr>event_synch_base :=
                       synch\<lparr>status := status synch AND NOT RTDM_EVENT_PENDING\<rparr>\<rparr>,
               Returned Success)
         else (event\<lparr>event_synch_base := synch\<lparr>pendq := pendq synch @ [t]\<rparr>\<rparr>, Blocked))"

definition event_pending :: "rtdm_event_t \<Rightarrow> bool" where
  "event_pending event = (status (event_synch_base event) AND RTDM_EVENT_PENDING \<noteq> 0)"

section \<open>Device unregistration\<close>

text \<open>
  Modelled from the spec: \<open>rtdm_dev_unregister(device, poll_delay)\<close> is declared in
  the header and defined in the RTDM core, which is not among the sources.
  Unregistration blocks, polling with the caller's delay, until all open contexts of the
  device have closed.  The number of open contexts is in the hands of the callers that
  close them: \<open>open_contexts t\<close> is that number at time \<open>t\<close>, in milliseconds.  The
  service looks at it, returns if it is zero, and otherwise sleeps for
  \<open>poll_delay\<close> and looks again; its value is the time at which it returns, and
  \<open>None\<close> if it never does.
\<close>

partial_function (option) rtdm_dev_unregister :: "(nat \<Rightarrow> nat) \<Rightarrow> nat \<Rightarrow> nat \<Rightarrow> nat option" where
  "rtdm_dev_unregister open_contexts poll_delay now =
     (if open_contexts now = 0 then Some now
      else rtdm_dev_unregister open_contexts poll_delay (now + poll_delay))"

text \<open>
  \<^verbatim>\<open>void __rtipc_exit(void)
  {
	rtdm_dev_unregister(&device, 1000);
  }\<close>
\<close>

definition rtipc_exit :: "(nat \<Rightarrow> nat) \<Rightarrow> nat \<Rightarrow> nat option" where
  "rtipc_exit open_contexts now = rtdm_dev_unregister open_contexts 1000 now"

text \<open>
  A device with one context whose close stays in its retry loop until time 2500.
\<close>

definition closing_at_2500 :: "nat \<Rightarrow> nat" where
  "closing_at_2500 t = (if t < 2500 then 1 else 0)"

text \<open>
  The service returned at \<open>t\<close> having polled from \<open>now\<close>: no context is open
  at \<open>t\<close>, \<open>t\<close> is a whole number of delays after \<open>now\<close>, and at every
  earlier poll some context was still open.
\<close>

definition polled_until ::
  "(nat \<Rightarrow> nat) \<Rightarrow> nat \<Rightarrow> nat \<Rightarrow> nat \<Rightarrow> bool" where
  "polled_until open_contexts poll_delay now t =
     (open_contexts t = 0
      \<and> (\<exists>k. t = now + k * poll_delay
            \<and> (\<forall>j<k. open_contexts (now + j * poll_delay) \<noteq> 0)))"

section \<open>Word arithmetic used below\<close>

lemma low_byte_mask: "(0xFF :: c_int) = mask 8"
  by (simp add: mask_eq_exp_minus_1)

lemma sint_low_byte: "sint ((a::c_int) AND 0xFF) = sint a mod 256"
proof -
  have "sint (take_bit 8 a) = take_bit 8 (sint a)"
    by (auto simp add: sint_uint bit_eq_iff bit_simps min_def)
  then show ?thesis
    by (simp add: low_byte_mask take_bit_eq_mask[symmetric] take_bit_eq_mod)
qed

lemma major_of_ver: "RTDM_DRIVER_MAJOR_VER (RTDM_DRIVER_VER a b c) = a AND 0xFF"
  unfolding RTDM_DRIVER_MAJOR_VER_def RTDM_DRIVER_VER_def low_byte_mask
  by (rule bit_word_eqI) (auto simp add: bit_simps)

lemma minor_of_ver: "RTDM_DRIVER_MINOR_VER (RTDM_DRIVER_VER a b c) = b AND 0xFF"
  unfolding RTDM_DRIVER_MINOR_VER_def RTDM_DRIVER_VER_def low_byte_mask
  by (rule bit_word_eqI) (auto simp add: bit_simps)

lemma patch_of_ver: "RTDM_DRIVER_PATCH_VER (RTDM_DRIVER_VER a b c) = c AND 0xFF"
  unfolding RTDM_DRIVER_PATCH_VER_def RTDM_DRIVER_VER_def low_byte_mask
  by (rule bit_word_eqI) (auto simp add: bit_simps)

section \<open>The lock counter under admissible runs\<close>

lemma closing_after_set: "test_bit RTDM_CLOSING (set_bit RTDM_CLOSING f)"
  by (simp add: test_bit_def RTDM_CLOSING_def bit_simps)

lemma sint_inc: "sint (c::c_int) < 2147483647 \<Longrightarrow> sint (c + 1) = sint c + 1"
  using sint_ge[of c] by (simp add: sint_word_ariths signed_take_bit_int_eq_self)

lemma sint_dec: "- 2147483648 < sint (c::c_int) \<Longrightarrow> sint (c - 1) = sint c - 1"
  using sint_lt[of c] by (simp add: sint_word_ariths signed_take_bit_int_eq_self)

lemma sint_zero_iff: "sint (c::c_int) = 0 \<longleftrightarrow> c = 0"
  by (rule signed_eq_0_iff)

lemma unlock_refines_spec:
  "CONTEXT_IS_LOCKED context \<Longrightarrow> rtdm_context_unlock context k = spec_unlock context k"
  by (auto simp add: rtdm_context_unlock_def spec_unlock_def CONTEXT_IS_LOCKED_def
      XENO_ASSERT_def atomic_dec_and_test_def rthal_apc_schedule_def Let_def word_sless_alt)

lemmas lifecycle_eval =
  state_after_def apc_step_def context_open_def kernel_boot_def
  rtdm_context_lock_def rtdm_context_unlock_def rtdm_context_put_def request_close_def
  spec_unlock_def XENO_ASSERT_def
  CONTEXT_IS_LOCKED_def atomic_inc_def atomic_dec_and_test_def rthal_apc_schedule_def
  test_bit_def RTDM_CLOSING_def RTDM_CREATED_IN_NRT_def Let_def word_sless_alt
  set_bit_eq_or

lemma locked_iff:
  "CONTEXT_IS_LOCKED c \<longleftrightarrow>
     (1 < sint (close_lock_count c) \<or>
      (test_bit RTDM_CLOSING (context_flags c) \<and> 0 < sint (close_lock_count c)))"
  by (simp add: CONTEXT_IS_LOCKED_def word_sless_alt)

lemma run_append: "run (xs @ ys) s = run ys (run xs s)"
  by (induction xs arbitrary: s) simp_all

lemma run_ok_append: "run_ok (xs @ ys) s \<longleftrightarrow> run_ok xs s \<and> run_ok ys (run xs s)"
  by (induction xs arbitrary: s) simp_all

lemma flags_lock: "context_flags (fst (rtdm_context_lock c k)) = context_flags c"
  by (simp add: rtdm_context_lock_def Let_def)

lemma flags_unlock: "context_flags (fst (rtdm_context_unlock c k)) = context_flags c"
  by (simp add: rtdm_context_unlock_def Let_def atomic_dec_and_test_def)

lemma count_lock:
  "close_lock_count (fst (rtdm_context_lock c k)) = close_lock_count c + 1"
  by (simp add: rtdm_context_lock_def Let_def atomic_inc_def)

lemma count_unlock:
  "close_lock_count (fst (rtdm_context_unlock c k)) = close_lock_count c - 1"
  by (simp add: rtdm_context_unlock_def Let_def atomic_dec_and_test_def)

lemma apc_lock: "apc_requests (snd (rtdm_context_lock c k)) = apc_requests k"
  by (simp add: rtdm_context_lock_def Let_def XENO_ASSERT_def)

lemma apc_unlock:
  "apc_requests (snd (rtdm_context_unlock c k)) =
     (if close_lock_count c - 1 = 0 then Suc (apc_requests k) else apc_requests k)"
  by (simp add: rtdm_context_unlock_def Let_def XENO_ASSERT_def atomic_dec_and_test_def
      rthal_apc_schedule_def)

lemma lock_step:
  assumes "lifecycle_inv b (c, k)" and "b < 2147483647" and "0 <s close_lock_count c"
  shows "lifecycle_inv (b + 1) (rtdm_context_lock c k)"
    and "close_lock_count (fst (rtdm_context_lock c k)) \<noteq> 0"
proof -
  from assms(1,2) have lt: "sint (close_lock_count c) < 2147483647"
    by (simp add: lifecycle_inv_def)
  from assms(3) have pos: "0 < sint (close_lock_count c)" by (simp add: word_sless_alt)
  then have nz: "close_lock_count c \<noteq> 0" by auto
  show nz': "close_lock_count (fst (rtdm_context_lock c k)) \<noteq> 0"
    using sint_inc[OF lt] pos sint_zero_iff[of "close_lock_count c + 1"]
    by (simp add: count_lock)
  show "lifecycle_inv (b + 1) (rtdm_context_lock c k)"
    using assms(1) pos nz nz' sint_inc[OF lt]
    by (simp add: lifecycle_inv_def count_lock flags_lock apc_lock)
qed

lemma unlock_step:
  assumes "lifecycle_inv b (c, k)" and "CONTEXT_IS_LOCKED c"
  shows "lifecycle_inv (b + 1) (rtdm_context_unlock c k)"
    and "close_lock_count c \<noteq> 0"
    and "close_lock_count c - 1 = 0 \<longleftrightarrow> close_lock_count c = 1"
    and "close_lock_count c = 1 \<longrightarrow> test_bit RTDM_CLOSING (context_flags c)"
proof -
  from assms(2) have pos: "0 < sint (close_lock_count c)" by (auto simp add: locked_iff)
  then show nz: "close_lock_count c \<noteq> 0" by auto
  have dec: "sint (close_lock_count c - 1) = sint (close_lock_count c) - 1"
    using pos by (intro sint_dec) simp
  have z: "close_lock_count c - 1 = 0 \<longleftrightarrow> sint (close_lock_count c) = 1"
    using dec sint_zero_iff[of "close_lock_count c - 1"] by auto
  show one: "close_lock_count c - 1 = 0 \<longleftrightarrow> close_lock_count c = 1"
    by (metis diff_eq_eq add_0 diff_self)
  show "close_lock_count c = 1 \<longrightarrow> test_bit RTDM_CLOSING (context_flags c)"
    using assms(2) by (auto simp add: locked_iff)
  show "lifecycle_inv (b + 1) (rtdm_context_unlock c k)"
    using assms pos nz dec z
    by (auto simp add: lifecycle_inv_def count_unlock flags_unlock apc_unlock locked_iff)
qed

lemma exec_step:
  assumes "lifecycle_inv b s" and "b < 2147483647" and "admissible op s"
  shows "lifecycle_inv (b + 1) (exec_op op s)"
    and "close_lock_count (fst s) \<noteq> 0"
    and "apc_step s (exec_op op s) \<longleftrightarrow>
           close_lock_count (fst s) = 1 \<and> close_lock_count (fst (exec_op op s)) = 0
           \<and> test_bit RTDM_CLOSING (context_flags (fst (exec_op op s)))"
proof -
  obtain c k where s: "s = (c, k)" by (cases s)
  have all: "lifecycle_inv (b + 1) (exec_op op s) \<and> close_lock_count (fst s) \<noteq> 0 \<and>
      (apc_step s (exec_op op s) \<longleftrightarrow>
           close_lock_count (fst s) = 1 \<and> close_lock_count (fst (exec_op op s)) = 0
           \<and> test_bit RTDM_CLOSING (context_flags (fst (exec_op op s))))"
  proof (cases op)
    case Lock
    from assms(3) have a: "0 <s close_lock_count c" by (simp add: s Lock)
    then have "close_lock_count c \<noteq> 0" by (auto simp add: word_sless_alt)
    then show ?thesis
      using lock_step[OF assms(1)[unfolded s] assms(2) a]
      by (simp add: s Lock apc_step_def apc_lock)
  next
    case Unlock
    from assms(3) have a: "CONTEXT_IS_LOCKED c" by (simp add: s Unlock)
    show ?thesis
      using unlock_step[OF assms(1)[unfolded s] a]
      by (auto simp add: s Unlock apc_step_def apc_unlock count_unlock flags_unlock)
  next
    case Request_close
    let ?c = "c\<lparr>context_flags := set_bit RTDM_CLOSING (context_flags c)\<rparr>"
    from assms(3) have a: "\<not> test_bit RTDM_CLOSING (context_flags c)"
      by (simp add: s Request_close)
    with assms(1) have pos: "1 \<le> sint (close_lock_count c)"
      by (simp add: s lifecycle_inv_def)
    have i: "lifecycle_inv b (?c, k)"
      using assms(1) by (simp add: s lifecycle_inv_def closing_after_set)
    have l: "CONTEXT_IS_LOCKED ?c"
      using pos by (simp add: locked_iff closing_after_set)
    show ?thesis
      using unlock_step[OF i l]
      by (auto simp add: s Request_close request_close_def apc_step_def apc_unlock
          count_unlock flags_unlock closing_after_set)
  qed
  from all show "lifecycle_inv (b + 1) (exec_op op s)" by simp
  from all show "close_lock_count (fst s) \<noteq> 0" by simp
  from all show "apc_step s (exec_op op s) \<longleftrightarrow>
           close_lock_count (fst s) = 1 \<and> close_lock_count (fst (exec_op op s)) = 0
           \<and> test_bit RTDM_CLOSING (context_flags (fst (exec_op op s)))" by simp
qed

lemma run_inv:
  "lifecycle_inv b s \<Longrightarrow> b + int (length ops) \<le> 2147483647 \<Longrightarrow> run_ok ops s \<Longrightarrow>
   lifecycle_inv (b + int (length ops)) (run ops s)"
proof (induction ops arbitrary: s b)
  case Nil
  then show ?case by simp
next
  case (Cons op ops)
  from Cons.prems(2) have b: "b < 2147483647" by simp
  from Cons.prems(3) have a: "admissible op s" and r: "run_ok ops (exec_op op s)" by simp_all
  have i: "lifecycle_inv (b + 1) (exec_op op s)"
    by (rule exec_step(1)[OF Cons.prems(1) b a])
  have "lifecycle_inv (b + 1 + int (length ops)) (run ops (exec_op op s))"
    using Cons.prems(2) by (intro Cons.IH[OF i _ r]) simp
  then show ?case by (simp add: ac_simps)
qed

lemma inv_open: "lifecycle_inv 1 (context_open nrt, kernel_boot)"
  by (simp add: lifecycle_inv_def context_open_def kernel_boot_def)

lemma prefix_ok:
  assumes "run_ok ops (context_open nrt, kernel_boot)"
  shows "run_ok (take n ops) (context_open nrt, kernel_boot)"
    and "run_ok (drop n ops) (state_after n ops nrt)"
  using assms run_ok_append[of "take n ops" "drop n ops" "(context_open nrt, kernel_boot)"]
  by (simp_all add: state_after_def)

lemma prefix_inv:
  assumes "length ops < 2147483647" and "run_ok ops (context_open nrt, kernel_boot)"
  shows "lifecycle_inv (1 + int (length (take n ops))) (state_after n ops nrt)"
  unfolding state_after_def
proof (rule run_inv[OF inv_open])
  show "1 + int (length (take n ops)) \<le> 2147483647" using assms(1) by simp
  show "run_ok (take n ops) (context_open nrt, kernel_boot)"
    by (rule prefix_ok(1)[OF assms(2)])
qed

lemma state_after_Suc:
  "n < length ops \<Longrightarrow> state_after (Suc n) ops nrt = exec_op (ops ! n) (state_after n ops nrt)"
  by (simp add: state_after_def take_Suc_conv_app_nth run_append)


section \<open>Facts about the heap and evaluation rules\<close>

lemma xnmalloc_fail: "fst (xnmalloc heap sz) = NULL \<Longrightarrow> snd (xnmalloc heap sz) = heap"
  by (simp add: xnmalloc_def xnheap_alloc_def NULL_def Let_def split: if_splits)

lemmas rtipc_eval =
  rtipc_socket_def rtipc_close_def rtipc_build_def rtipc_boot_def iddp_proto_driver_def
  protocols_read_def default_protocol_def xnmalloc_def xnfree_def xnheap_alloc_def
  xnheap_free_def NULL_def Let_def
  EPROTONOSUPPORT_def ENOPROTOOPT_def ENOMEM_def EINVAL_def

section \<open>Facts about the dispatcher\<close>

lemma right_domain_invoke:
  "variant ops operation c = Some h \<Longrightarrow>
   \<forall>i \<in> set (fst (invoke_in call c h)). right_domain ops operation i"
  by (simp add: invoke_in_def right_domain_def)

lemma right_domain_opposite:
  "\<forall>i \<in> set (fst (dispatch_opposite call ops operation c)). right_domain ops operation i"
  by (cases "variant ops operation (opposite c)")
     (simp_all add: dispatch_opposite_def right_domain_invoke)

lemma fst_invoke_in: "fst (invoke_in call c h) = [(c, h)]"
  by (simp add: invoke_in_def)

lemma rtipc_rt_only:
  "operation \<in> {Op_read, Op_write, Op_recvmsg, Op_sendmsg} \<Longrightarrow>
   variant rtipc_device_ops operation Non_real_time = None
   \<and> variant rtipc_device_ops operation Real_time \<noteq> None"
  by (auto simp add: rtipc_device_ops_def)

lemmas dispatch_eval =
  dispatch_def dispatch_opposite_def invoke_in_def rtipc_device_ops_def right_domain_def
  ENOSYS_def

section \<open>Facts about flushing a synchronization object\<close>

lemma flush_woken: "snd (rtdm_synch_flush synch reason) = map (\<lambda>t. (t, reason)) (pendq synch)"
  by (simp add: rtdm_synch_flush_def)

lemma flush_synch: "fst (rtdm_synch_flush synch reason) = synch\<lparr>pendq := []\<rparr>"
  by (simp add: rtdm_synch_flush_def)

lemma removed_reason: "wait_result_of XNRMID = Removed"
  by (simp add: wait_result_of_def XNRMID_def)

lemma woken_threads: "map fst (map (\<lambda>t. (t, reason)) q) = q"
  by (induction q) simp_all

lemma woken_results:
  "map (wait_result_of \<circ> snd) (map (\<lambda>t. (t, XNRMID)) q) = replicate (length q) Removed"
  by (induction q) (simp_all add: removed_reason)

section \<open>Facts about the polling loop\<close>

lemma polled_until_now: "open_contexts now = 0 \<Longrightarrow> polled_until open_contexts poll_delay now now"
  unfolding polled_until_def by (intro conjI exI[of _ 0]) simp_all

lemma polled_until_later:
  assumes "open_contexts now \<noteq> 0"
    and "polled_until open_contexts poll_delay (now + poll_delay) t"
  shows "polled_until open_contexts poll_delay now t"
proof -
  from assms(2) obtain k where z: "open_contexts t = 0"
    and k: "t = now + poll_delay + k * poll_delay"
    and n: "\<forall>j<k. open_contexts (now + poll_delay + j * poll_delay) \<noteq> 0"
    unfolding polled_until_def by blast
  have "\<forall>j<Suc k. open_contexts (now + j * poll_delay) \<noteq> 0"
  proof (intro allI impI)
    fix j assume "j < Suc k"
    show "open_contexts (now + j * poll_delay) \<noteq> 0"
    proof (cases j)
      case 0
      with assms(1) show ?thesis by simp
    next
      case (Suc i)
      with \<open>j < Suc k\<close> n have "open_contexts (now + poll_delay + i * poll_delay) \<noteq> 0" by simp
      with Suc show ?thesis by (simp add: ac_simps)
    qed
  qed
  moreover from k have "t = now + Suc k * poll_delay" by simp
  ultimately show ?thesis unfolding polled_until_def using z by blast
qed

lemma unregister_returns_at_zero:
  assumes "rtdm_dev_unregister open_contexts poll_delay now = Some t"
  shows "polled_until open_contexts poll_delay now t"
proof (rule rtdm_dev_unregister.raw_induct[where P = polled_until, OF _ assms])
  fix f :: "(nat \<Rightarrow> nat) \<Rightarrow> nat \<Rightarrow> nat \<Rightarrow> nat option" and oc d n u
  assume ih: "\<And>oc' d' n' u'. f oc' d' n' = Some u' \<Longrightarrow> polled_until oc' d' n' u'"
    and st: "(if oc n = 0 then Some n else f oc d (n + d)) = Some u"
  show "polled_until oc d n u"
  proof (cases "oc n = 0")
    case True
    with st have "u = n" by simp
    with True show ?thesis by (simp add: polled_until_now)
  next
    case False
    with st have "f oc d (n + d) = Some u" by simp
    from polled_until_later[OF False ih[OF this]] show ?thesis .
  qed
qed

lemma unregister_returns:
  "0 < poll_delay \<Longrightarrow> \<forall>t\<ge>T. open_contexts t = 0 \<Longrightarrow>
   \<exists>t. rtdm_dev_unregister open_contexts poll_delay now = Some t"
proof (induction "T - now" arbitrary: now rule: less_induct)
  case less
  show ?case
  proof (cases "open_contexts now = 0")
    case True
    then show ?thesis by (subst rtdm_dev_unregister.simps) simp
  next
    case False
    with less.prems(2) have "now < T" by (meson not_le_imp_less)
    with less.prems(1) have "T - (now + poll_delay) < T - now" by simp
    from less.hyps[OF this less.prems]
    obtain t where "rtdm_dev_unregister open_contexts poll_delay (now + poll_delay) = Some t"
      by blast
    with False show ?thesis by (subst rtdm_dev_unregister.simps) simp
  qed
qed

lemma exit_value: "rtipc_exit closing_at_2500 0 = Some 3000"
  unfolding rtipc_exit_def
  apply (subst rtdm_dev_unregister.simps, simp add: closing_at_2500_def)
  apply (subst rtdm_dev_unregister.simps, simp add: closing_at_2500_def)
  apply (subst rtdm_dev_unregister.simps, simp add: closing_at_2500_def)
  apply (subst rtdm_dev_unregister.simps, simp add: closing_at_2500_def)
  done


section \<open>Claims\<close>

text \<open>
  C1 (as amended).  For every device context, \<open>rtdm_context_unlock\<close> (and
  \<open>rtdm_context_put\<close>, which is the same call) decrements the lock count, leaves the
  flags alone, and schedules the deferred finalization if and only if the resulting
  count is zero; it does not read the \<open>closing\<close> flag.  On a context for which the
  asserted \<open>CONTEXT_IS_LOCKED\<close> holds this is the specified behaviour: there a zero
  result implies that \<open>closing\<close> is set.
\<close>

theorem unlock_schedules_at_zero:
  "fst (rtdm_context_unlock context k)
     = context\<lparr>close_lock_count := close_lock_count context - 1\<rparr>
   \<and> apc_requests (snd (rtdm_context_unlock context k))
     = (if close_lock_count context - 1 = 0 then Suc (apc_requests k) else apc_requests k)
   \<and> rtdm_context_put context k = rtdm_context_unlock context k
   \<and> (CONTEXT_IS_LOCKED context \<longrightarrow>
        rtdm_context_unlock context k = spec_unlock context k)"
  by (simp add: unlock_refines_spec rtdm_context_put_def apc_unlock)
     (simp add: rtdm_context_unlock_def Let_def atomic_dec_and_test_def)

theorem unlock_schedules_at_zero_witness:
  "CONTEXT_IS_LOCKED \<lparr>context_flags = 2, close_lock_count = 1\<rparr>
   \<and> rtdm_context_unlock \<lparr>context_flags = 2, close_lock_count = 1\<rparr> kernel_boot
       = (\<lparr>context_flags = 2, close_lock_count = 0\<rparr>,
          \<lparr>apc_requests = 1, assert_failures = 0\<rparr>)
   \<and> spec_unlock \<lparr>context_flags = 2, close_lock_count = 1\<rparr> kernel_boot
       = (\<lparr>context_flags = 2, close_lock_count = 0\<rparr>,
          \<lparr>apc_requests = 1, assert_failures = 0\<rparr>)"
  using unlock_schedules_at_zero [of "\<lparr>context_flags = 2, close_lock_count = 1\<rparr>" kernel_boot]
  by (simp add: lifecycle_eval)

text \<open>
  The claim as stated fails on a context whose count is 1 with the \<open>closing\<close> flag
  clear: the unlock brings the count to zero and schedules the finalization, where the
  specified unlock schedules nothing.
\<close>

theorem unlock_without_closing_counterexample:
  "\<not> test_bit RTDM_CLOSING (context_flags \<lparr>context_flags = 0, close_lock_count = 1\<rparr>)
   \<and> rtdm_context_unlock \<lparr>context_flags = 0, close_lock_count = 1\<rparr> kernel_boot
       = (\<lparr>context_flags = 0, close_lock_count = 0\<rparr>,
          \<lparr>apc_requests = 1, assert_failures = 1\<rparr>)
   \<and> spec_unlock \<lparr>context_flags = 0, close_lock_count = 1\<rparr> kernel_boot
       = (\<lparr>context_flags = 0, close_lock_count = 0\<rparr>,
          \<lparr>apc_requests = 0, assert_failures = 0\<rparr>)"
  by (simp add: lifecycle_eval)

text \<open>
  C2 (as amended).  Take any sequence of fewer than \<open>2^31 - 1\<close> lock, unlock and
  close-request operations on a newly opened context in which every operation is
  admissible where it is issued: a lock only while the count is positive, an unlock only
  while \<open>CONTEXT_IS_LOCKED\<close> holds, the close request only while the
  \<open>closing\<close> flag is clear.  Then after every prefix the lock count is not
  negative; the finalization has been scheduled once if the count is zero and not at all
  otherwise; a zero count comes with the \<open>closing\<close> flag set and ends the sequence;
  and a step schedules the finalization exactly when it takes the count from 1 to 0
  with the \<open>closing\<close> flag set.
\<close>

theorem finalization_scheduled_once:
  assumes "length ops < 2147483647"
    and "run_ok ops (context_open nrt, kernel_boot)"
    and "n \<le> length ops"
  shows "0 \<le> sint (close_lock_count (fst (state_after n ops nrt)))
       \<and> apc_requests (snd (state_after n ops nrt))
           = (if close_lock_count (fst (state_after n ops nrt)) = 0 then 1 else 0)
       \<and> (close_lock_count (fst (state_after n ops nrt)) = 0 \<longrightarrow>
             test_bit RTDM_CLOSING (context_flags (fst (state_after n ops nrt)))
             \<and> n = length ops)
       \<and> (n < length ops \<longrightarrow>
             (apc_step (state_after n ops nrt) (state_after (Suc n) ops nrt) \<longleftrightarrow>
                close_lock_count (fst (state_after n ops nrt)) = 1
                \<and> close_lock_count (fst (state_after (Suc n) ops nrt)) = 0
                \<and> test_bit RTDM_CLOSING (context_flags (fst (state_after (Suc n) ops nrt)))))"
proof -
  let ?s = "state_after n ops nrt"
  have i: "lifecycle_inv (1 + int (length (take n ops))) ?s"
    by (rule prefix_inv[OF assms(1,2)])
  have b: "1 + int (length (take n ops)) < 2147483647" if "n < length ops"
    using that assms(1) by simp
  have f: "admissible (ops ! n) ?s" if "n < length ops"
    using prefix_ok(2)[OF assms(2), of n] that by (simp add: Cons_nth_drop_Suc[symmetric])
  have nz: "close_lock_count (fst ?s) \<noteq> 0" if "n < length ops"
    by (rule exec_step(2)[OF i b[OF that] f[OF that]])
  have st: "apc_step ?s (state_after (Suc n) ops nrt) \<longleftrightarrow>
                close_lock_count (fst ?s) = 1
                \<and> close_lock_count (fst (state_after (Suc n) ops nrt)) = 0
                \<and> test_bit RTDM_CLOSING (context_flags (fst (state_after (Suc n) ops nrt)))"
    if "n < length ops"
    using exec_step(3)[OF i b[OF that] f[OF that]] state_after_Suc[OF that, of nrt] by simp
  have len: "n = length ops" if "close_lock_count (fst ?s) = 0"
    using that nz assms(3) by (cases "n < length ops") auto
  show ?thesis
    using i st len by (auto simp add: lifecycle_inv_def)
qed


theorem finalization_scheduled_once_witness:
  "length [Lock, Lock, Unlock, Request_close, Unlock] < 2147483647
   \<and> run_ok [Lock, Lock, Unlock, Request_close, Unlock] (context_open True, kernel_boot)
   \<and> (4::nat) \<le> length [Lock, Lock, Unlock, Request_close, Unlock]
   \<and> fst (state_after 4 [Lock, Lock, Unlock, Request_close, Unlock] True)
        = \<lparr>context_flags = 3, close_lock_count = 1\<rparr>
   \<and> apc_requests (snd (state_after 4 [Lock, Lock, Unlock, Request_close, Unlock] True)) = 0
   \<and> fst (state_after 5 [Lock, Lock, Unlock, Request_close, Unlock] True)
        = \<lparr>context_flags = 3, close_lock_count = 0\<rparr>
   \<and> apc_requests (snd (state_after 5 [Lock, Lock, Unlock, Request_close, Unlock] True)) = 1
   \<and> apc_step (state_after 4 [Lock, Lock, Unlock, Request_close, Unlock] True)
               (state_after 5 [Lock, Lock, Unlock, Request_close, Unlock] True)"
  using finalization_scheduled_once [of "[Lock, Lock, Unlock, Request_close, Unlock]" True 4]
  by (simp add: lifecycle_eval)

text \<open>
  The claim as stated, over all sequences, fails on a close request followed by a lock
  and two unlocks: the close request brings the count to zero and schedules the
  finalization, the lock and the first unlock bring it to zero again and schedule the
  finalization a second time, and the last unlock leaves the count at -1.
\<close>

theorem finalization_twice_counterexample:
  "apc_requests
     (snd (run [Request_close, Lock, Unlock, Unlock] (context_open False, kernel_boot))) = 2
   \<and> sint (close_lock_count
        (fst (run [Request_close, Lock, Unlock, Unlock] (context_open False, kernel_boot)))) = - 1"
  by (simp add: lifecycle_eval)

text \<open>
  C3.  For every operation with a variant per context and every caller context \<open>c\<close>:
  if the variant matching \<open>c\<close> exists it is invoked, first and in \<open>c\<close>, and its
  result is the outcome unless it is the sentinel; otherwise, if the variant for the
  opposite context exists, the only invocation is that variant, in the opposite context;
  otherwise nothing is invoked and the call fails with NotSupported.  Every invocation
  runs the handler that the table holds for the context it runs in.  For read, write,
  recvmsg and sendmsg of the RTIPC device, which registers the real-time variant only, a
  call from non-real-time context invokes exactly that variant, in real-time context.
\<close>

theorem dispatch_by_context:
  "(variant ops operation c = Some h \<longrightarrow>
      fst (dispatch call ops operation c) \<noteq> []
      \<and> hd (fst (dispatch call ops operation c)) = (c, h))
   \<and> (variant ops operation c = Some h \<and> call h c \<noteq> - ENOSYS \<longrightarrow>
      dispatch call ops operation c = ([(c, h)], Handled (call h c)))
   \<and> (variant ops operation c = None \<and> variant ops operation (opposite c) = Some h' \<longrightarrow>
      fst (dispatch call ops operation c) = [(opposite c, h')])
   \<and> (variant ops operation c = None \<and> variant ops operation (opposite c) = Some h'
        \<and> call h' (opposite c) \<noteq> - ENOSYS \<longrightarrow>
      dispatch call ops operation c = ([(opposite c, h')], Handled (call h' (opposite c))))
   \<and> (variant ops operation c = None \<and> variant ops operation (opposite c) = None \<longrightarrow>
      dispatch call ops operation c = ([], NotSupported))
   \<and> (\<forall>i \<in> set (fst (dispatch call ops operation c)). right_domain ops operation i)
   \<and> (operation \<in> {Op_read, Op_write, Op_recvmsg, Op_sendmsg} \<longrightarrow>
        (\<exists>g. variant rtipc_device_ops operation Real_time = Some g
           \<and> fst (dispatch rcall rtipc_device_ops operation Non_real_time) = [(Real_time, g)]))"
proof -
  have c1: "fst (dispatch call ops operation c) \<noteq> []
      \<and> hd (fst (dispatch call ops operation c)) = (c, h)"
    if "variant ops operation c = Some h"
    using that by (simp add: dispatch_def split_beta)
  have c2: "dispatch call ops operation c = ([(c, h)], Handled (call h c))"
    if "variant ops operation c = Some h \<and> call h c \<noteq> - ENOSYS"
    using that by (simp add: dispatch_def)
  have c3: "fst (dispatch call ops operation c) = [(opposite c, h')]"
    if "variant ops operation c = None \<and> variant ops operation (opposite c) = Some h'"
    using that by (simp add: dispatch_def dispatch_opposite_def fst_invoke_in)
  have c4: "dispatch call ops operation c
      = ([(opposite c, h')], Handled (call h' (opposite c)))"
    if "variant ops operation c = None \<and> variant ops operation (opposite c) = Some h'
        \<and> call h' (opposite c) \<noteq> - ENOSYS"
    using that by (simp add: dispatch_def dispatch_opposite_def invoke_in_def)
  have c5: "dispatch call ops operation c = ([], NotSupported)"
    if "variant ops operation c = None \<and> variant ops operation (opposite c) = None"
    using that by (simp add: dispatch_def dispatch_opposite_def)
  have c6: "\<forall>i \<in> set (fst (dispatch call ops operation c)). right_domain ops operation i"
  proof (cases "variant ops operation c")
    case None
    then show ?thesis by (simp add: dispatch_def right_domain_opposite)
  next
    case (Some g)
    then show ?thesis
      using right_domain_opposite[of call ops operation c]
      by (simp add: dispatch_def split_beta right_domain_def)
  qed
  have c7: "\<exists>g. variant rtipc_device_ops operation Real_time = Some g
           \<and> fst (dispatch rcall rtipc_device_ops operation Non_real_time) = [(Real_time, g)]"
    if a: "operation \<in> {Op_read, Op_write, Op_recvmsg, Op_sendmsg}"
  proof -
    from rtipc_rt_only[OF a] obtain g where
      n: "variant rtipc_device_ops operation Non_real_time = None"
      and g: "variant rtipc_device_ops operation Real_time = Some g" by auto
    have "fst (dispatch rcall rtipc_device_ops operation Non_real_time) = [(Real_time, g)]"
      using n g by (simp add: dispatch_def dispatch_opposite_def fst_invoke_in)
    with g show ?thesis by blast
  qed
  from c1 c2 c3 c4 c5 c6 c7 show ?thesis by blast
qed

theorem dispatch_by_context_witness:
  "variant rtipc_device_ops Op_read Non_real_time = None
   \<and> variant rtipc_device_ops Op_read Real_time = Some Rtipc_read
   \<and> dispatch rtipc_call rtipc_device_ops Op_read Non_real_time
       = ([(Real_time, Rtipc_read)], Handled 16)
   \<and> dispatch rtipc_call rtipc_device_ops Op_read Real_time
       = ([(Real_time, Rtipc_read)], Handled 16)
   \<and> dispatch rtipc_call rtipc_device_ops Op_ioctl Non_real_time
       = ([(Non_real_time, Rtipc_ioctl)], Handled 0)
   \<and> Op_read \<in> {Op_read, Op_write, Op_recvmsg, Op_sendmsg}
   \<and> dispatch rtipc_call (rtipc_device_ops\<lparr>read_rt := None\<rparr>) Op_read Non_real_time
       = ([], NotSupported)"
  using dispatch_by_context [of rtipc_device_ops Op_read Non_real_time Rtipc_read rtipc_call
      Rtipc_read rtipc_call]
    dispatch_by_context [of rtipc_device_ops Op_read Real_time Rtipc_read rtipc_call
      Rtipc_read rtipc_call]
    dispatch_by_context [of "rtipc_device_ops\<lparr>read_rt := None\<rparr>" Op_read Non_real_time
      Rtipc_read rtipc_call Rtipc_read rtipc_call]
  by (simp add: dispatch_eval)

text \<open>
  C4.  Running \<open>rtipc_close\<close> twice on one open context.  The context is a socket
  of the datagram protocol, whose state buffer is block 1 of the heap; the protocol's
  close handler succeeds each time.  The first close returns 0 and hands block 1 to
  \<open>xnfree\<close>; the second close returns 0 as well and hands the same block to
  \<open>xnfree\<close> again: the state buffer is released twice.
\<close>

theorem rtipc_close_twice_frees_twice:
  "fst (rtipc_socket rtipc_build 0 2 (rtipc_boot 1024)) = Inr 0
   \<and> state (priv (snd (rtipc_socket rtipc_build 0 2 (rtipc_boot 1024)))) = 1
   \<and> fst (rtipc_close rtipc_build 0 (snd (rtipc_socket rtipc_build 0 2 (rtipc_boot 1024)))) = 0
   \<and> heap_frees (kheap (snd (rtipc_close rtipc_build 0
        (snd (rtipc_socket rtipc_build 0 2 (rtipc_boot 1024)))))) = [1]
   \<and> fst (rtipc_close rtipc_build 0 (snd (rtipc_close rtipc_build 0
        (snd (rtipc_socket rtipc_build 0 2 (rtipc_boot 1024)))))) = 0
   \<and> heap_frees (kheap (snd (rtipc_close rtipc_build 0 (snd (rtipc_close rtipc_build 0
        (snd (rtipc_socket rtipc_build 0 2 (rtipc_boot 1024)))))))) = [1, 1]"
  by (simp add: rtipc_eval)

text \<open>
  C5.  For each kind of primitive (event, semaphore, mutex), destroying it wakes every
  waiter that is blocked on it, each one with the reason \<open>XNRMID\<close>, for which the
  waiter's result is Removed, and leaves no waiter queued.  Removed is neither Timeout
  (the result for \<open>XNTIMEO\<close>) nor success (the result of a plain wake-up).
\<close>

theorem destroy_wakes_removed:
  "map fst (snd (rtdm_event_destroy event)) = pendq (event_synch_base event)
   \<and> map (wait_result_of \<circ> snd) (snd (rtdm_event_destroy event))
       = replicate (length (pendq (event_synch_base event))) Removed
   \<and> pendq (event_synch_base (fst (rtdm_event_destroy event))) = []
   \<and> map fst (snd (rtdm_sem_destroy sem)) = pendq (sem_synch_base sem)
   \<and> map (wait_result_of \<circ> snd) (snd (rtdm_sem_destroy sem))
       = replicate (length (pendq (sem_synch_base sem))) Removed
   \<and> pendq (sem_synch_base (fst (rtdm_sem_destroy sem))) = []
   \<and> map fst (snd (rtdm_mutex_destroy mutex)) = pendq (mutex_synch_base mutex)
   \<and> map (wait_result_of \<circ> snd) (snd (rtdm_mutex_destroy mutex))
       = replicate (length (pendq (mutex_synch_base mutex))) Removed
   \<and> pendq (mutex_synch_base (fst (rtdm_mutex_destroy mutex))) = []
   \<and> Removed \<noteq> Timeout \<and> Removed \<noteq> Success
   \<and> wait_result_of XNTIMEO = Timeout \<and> wait_result_of 0 = Success"
  by (simp add: rtdm_event_destroy_def rtdm_sem_destroy_def rtdm_mutex_destroy_def
      split_beta flush_woken flush_synch woken_threads woken_results del: map_map)
     (simp add: wait_result_of_def XNTIMEO_def XNRMID_def)

text \<open>
  C6.  \<open>rtdm_event_pulse\<close> wakes every waiter blocked on the event, with a plain
  wake-up, leaves no waiter queued, and does not change the state word: the pending bit
  is as it was.  So on an event that was not pending, with or without waiters at the
  pulse, a \<open>wait()\<close> issued after the pulse blocks.
\<close>

theorem pulse_leaves_no_signal:
  "map fst (snd (rtdm_event_pulse event)) = pendq (event_synch_base event)
   \<and> map snd (snd (rtdm_event_pulse event))
       = replicate (length (pendq (event_synch_base event))) 0
   \<and> pendq (event_synch_base (fst (rtdm_event_pulse event))) = []
   \<and> status (event_synch_base (fst (rtdm_event_pulse event))) = status (event_synch_base event)
   \<and> event_pending (fst (rtdm_event_pulse event)) = event_pending event
   \<and> (\<not> event_pending event \<longrightarrow>
        snd (rtdm_event_wait (fst (rtdm_event_pulse event)) t) = Blocked
        \<and> pendq (event_synch_base (fst (rtdm_event_wait (fst (rtdm_event_pulse event)) t))) = [t])"
  by (simp add: rtdm_event_pulse_def split_beta flush_woken flush_synch woken_threads
      event_pending_def rtdm_event_wait_def Let_def comp_def map_replicate_const)

theorem pulse_leaves_no_signal_witness:
  "\<not> event_pending \<lparr>event_synch_base = \<lparr>status = 0, pendq = [3, 4]\<rparr>, event_select_block = []\<rparr>
   \<and> rtdm_event_pulse \<lparr>event_synch_base = \<lparr>status = 0, pendq = [3, 4]\<rparr>, event_select_block = []\<rparr>
       = (\<lparr>event_synch_base = \<lparr>status = 0, pendq = []\<rparr>, event_select_block = []\<rparr>,
          [(3, 0), (4, 0)])
   \<and> rtdm_event_wait \<lparr>event_synch_base = \<lparr>status = 0, pendq = []\<rparr>, event_select_block = []\<rparr> 5
       = (\<lparr>event_synch_base = \<lparr>status = 0, pendq = [5]\<rparr>, event_select_block = []\<rparr>, Blocked)"
  using pulse_leaves_no_signal
    [of "\<lparr>event_synch_base = \<lparr>status = 0, pendq = [3, 4]\<rparr>, event_select_block = []\<rparr>" 5]
  by (simp add: rtdm_event_pulse_def rtdm_synch_flush_def event_pending_def
      rtdm_event_wait_def Let_def)

text \<open>
  C7.  For every protocol number passed to \<open>rtipc_socket\<close>: a number below zero or
  not below \<open>IPCPROTO_MAX\<close> fails with \<open>-EPROTONOSUPPORT\<close> and changes nothing;
  a number in range whose table slot is \<open>NULL\<close> (protocol not compiled in) fails with
  \<open>-ENOPROTOOPT\<close> and changes nothing; and when the slot holds a protocol and the
  allocation of its state fails, the call fails with \<open>-ENOMEM\<close>, the heap is as it
  was (nothing remains allocated), the protocol's data are untouched and the state
  pointer of the private area is \<open>NULL\<close>.  The three error codes differ from each
  other and from success.
\<close>

theorem rtipc_socket_failures:
  "(protocol < 0 \<or> IPCPROTO_MAX m \<le> protocol \<longrightarrow>
      rtipc_socket m user_info protocol s = (Inr (- EPROTONOSUPPORT), s))
   \<and> (0 \<le> protocol \<and> protocol < IPCPROTO_MAX m
        \<and> protocols_read (protocols m) (default_protocol m protocol - 1) = Inr NULL \<longrightarrow>
      rtipc_socket m user_info protocol s = (Inr (- ENOPROTOOPT), s))
   \<and> (0 \<le> protocol \<and> protocol < IPCPROTO_MAX m
        \<and> protocols_read (protocols m) (default_protocol m protocol - 1) = Inr proto_ptr
        \<and> proto_ptr \<noteq> NULL
        \<and> fst (xnmalloc (kheap s) (proto_statesz (descriptor_at m proto_ptr))) = NULL \<longrightarrow>
      fst (rtipc_socket m user_info protocol s) = Inr (- ENOMEM)
      \<and> kheap (snd (rtipc_socket m user_info protocol s)) = kheap s
      \<and> drv (snd (rtipc_socket m user_info protocol s)) = drv s
      \<and> priv (snd (rtipc_socket m user_info protocol s)) = \<lparr>proto = proto_ptr, state = NULL\<rparr>)
   \<and> distinct [- EPROTONOSUPPORT, - ENOPROTOOPT, - ENOMEM, 0]"
proof (intro conjI impI)
  assume "protocol < 0 \<or> IPCPROTO_MAX m \<le> protocol"
  then show "rtipc_socket m user_info protocol s = (Inr (- EPROTONOSUPPORT), s)"
    by (auto simp add: rtipc_socket_def)
next
  assume "0 \<le> protocol \<and> protocol < IPCPROTO_MAX m
        \<and> protocols_read (protocols m) (default_protocol m protocol - 1) = Inr NULL"
  then show "rtipc_socket m user_info protocol s = (Inr (- ENOPROTOOPT), s)"
    by (simp add: rtipc_socket_def)
next
  assume a: "0 \<le> protocol \<and> protocol < IPCPROTO_MAX m
        \<and> protocols_read (protocols m) (default_protocol m protocol - 1) = Inr proto_ptr
        \<and> proto_ptr \<noteq> NULL
        \<and> fst (xnmalloc (kheap s) (proto_statesz (descriptor_at m proto_ptr))) = NULL"
  then have h: "snd (xnmalloc (kheap s) (proto_statesz (descriptor_at m proto_ptr))) = kheap s"
    by (simp add: xnmalloc_fail)
  have e: "rtipc_socket m user_info protocol s =
      (Inr (- ENOMEM), s\<lparr>priv := \<lparr>proto = proto_ptr, state = NULL\<rparr>, kheap := kheap s\<rparr>)"
    using a h by (simp add: rtipc_socket_def Let_def split_beta)
  show "fst (rtipc_socket m user_info protocol s) = Inr (- ENOMEM)" by (simp add: e)
  show "kheap (snd (rtipc_socket m user_info protocol s)) = kheap s" by (simp add: e)
  show "drv (snd (rtipc_socket m user_info protocol s)) = drv s" by (simp add: e)
  show "priv (snd (rtipc_socket m user_info protocol s)) = \<lparr>proto = proto_ptr, state = NULL\<rparr>"
    by (simp add: e)
next
  show "distinct [- EPROTONOSUPPORT, - ENOPROTOOPT, - ENOMEM, 0]"
    by (simp add: EPROTONOSUPPORT_def ENOPROTOOPT_def ENOMEM_def)
qed

theorem rtipc_socket_failures_witness:
  "rtipc_socket rtipc_build 0 7 (rtipc_boot 1024) = (Inr (- 93), rtipc_boot 1024)
   \<and> rtipc_socket rtipc_build 0 (- 1) (rtipc_boot 1024) = (Inr (- 93), rtipc_boot 1024)
   \<and> rtipc_socket rtipc_build 0 1 (rtipc_boot 1024) = (Inr (- 92), rtipc_boot 1024)
   \<and> fst (rtipc_socket rtipc_build 0 0 (rtipc_boot 16)) = Inr (- 12)
   \<and> kheap (snd (rtipc_socket rtipc_build 0 0 (rtipc_boot 16))) = kheap (rtipc_boot 16)
   \<and> heap_blocks (kheap (snd (rtipc_socket rtipc_build 0 0 (rtipc_boot 16)))) = []"
  using rtipc_socket_failures [of 7 rtipc_build 0 "rtipc_boot 1024" 0]
    rtipc_socket_failures [of "- 1" rtipc_build 0 "rtipc_boot 1024" 0]
    rtipc_socket_failures [of 1 rtipc_build 0 "rtipc_boot 1024" 0]
    rtipc_socket_failures [of 0 rtipc_build 0 "rtipc_boot 16" 4096]
  by (simp add: rtipc_eval)

text \<open>
  C8.  \<open>rtdm_dev_unregister\<close> never returns before the number of open contexts is
  zero: if it returns at time \<open>t\<close>, no context is open at \<open>t\<close>, \<open>t\<close> is a
  whole number of poll delays after the call, and at every earlier poll a context was
  still open.  With a positive delay it does return once the contexts stay closed.
  \<open>__rtipc_exit\<close> is this service with a delay of 1000.
\<close>

theorem unregister_waits_for_contexts:
  "(rtdm_dev_unregister open_contexts poll_delay now = Some t \<longrightarrow>
      open_contexts t = 0
      \<and> (\<exists>k. t = now + k * poll_delay
            \<and> (\<forall>j<k. open_contexts (now + j * poll_delay) \<noteq> 0)))
   \<and> (0 < poll_delay \<and> (\<forall>u\<ge>T. open_contexts u = 0) \<longrightarrow>
        (\<exists>u. rtdm_dev_unregister open_contexts poll_delay now = Some u))
   \<and> rtipc_exit open_contexts now = rtdm_dev_unregister open_contexts 1000 now"
  using unregister_returns_at_zero[of open_contexts poll_delay now t]
    unregister_returns[of poll_delay T open_contexts now]
  by (simp add: rtipc_exit_def polled_until_def)

theorem unregister_waits_for_contexts_witness:
  "rtdm_dev_unregister closing_at_2500 1000 0 = Some 3000
   \<and> closing_at_2500 3000 = 0
   \<and> closing_at_2500 0 \<noteq> 0 \<and> closing_at_2500 1000 \<noteq> 0 \<and> closing_at_2500 2000 \<noteq> 0
   \<and> (0::nat) < 1000"
  using unregister_waits_for_contexts [of closing_at_2500 1000 0 3000 2500] exit_value
  by (simp add: closing_at_2500_def rtipc_exit_def)

text \<open>
  C9.  The version code round-trips: for all C integers major, minor and patch, the
  major, minor and patch accessors applied to \<open>RTDM_DRIVER_VER(major, minor, patch)\<close>
  give major mod 256, minor mod 256 and patch mod 256, the arguments being read as
  signed integers and mod being the mathematical remainder in 0..255.
\<close>

theorem driver_version_roundtrip:
  "sint (RTDM_DRIVER_MAJOR_VER (RTDM_DRIVER_VER major minor patch)) = sint major mod 256
   \<and> sint (RTDM_DRIVER_MINOR_VER (RTDM_DRIVER_VER major minor patch)) = sint minor mod 256
   \<and> sint (RTDM_DRIVER_PATCH_VER (RTDM_DRIVER_VER major minor patch)) = sint patch mod 256"
  by (simp only: major_of_ver minor_of_ver patch_of_ver sint_low_byte simp_thms)

text \<open>
  C10.  For every integer passed as the mode other than \<open>RTDM_TIMERMODE_ABSOLUTE\<close>
  and \<open>RTDM_TIMERMODE_REALTIME\<close>, whether an enumerator or not,
  \<open>rtdm_task_sleep_abs\<close> returns \<open>-EINVAL\<close> and leaves the scheduler state
  untouched, whatever the sleep service is; this holds in particular for
  \<open>RTDM_TIMERMODE_RELATIVE\<close>, the enumerators having distinct values.  For the two
  absolute modes it is the sleep service called with the same wakeup date and the same
  mode.
\<close>

theorem rtdm_task_sleep_abs_modes:
  "(mode \<noteq> RTDM_TIMERMODE_ABSOLUTE xn \<and> mode \<noteq> RTDM_TIMERMODE_REALTIME xn \<longrightarrow>
      rtdm_task_sleep_abs xn task_sleep wakeup_date mode w = (- EINVAL, w))
   \<and> (mode = RTDM_TIMERMODE_ABSOLUTE xn \<or> mode = RTDM_TIMERMODE_REALTIME xn \<longrightarrow>
      rtdm_task_sleep_abs xn task_sleep wakeup_date mode w = task_sleep wakeup_date mode w)
   \<and> (XN_RELATIVE xn \<noteq> XN_ABSOLUTE xn \<and> XN_RELATIVE xn \<noteq> XN_REALTIME xn \<longrightarrow>
      rtdm_task_sleep_abs xn task_sleep wakeup_date (RTDM_TIMERMODE_RELATIVE xn) w
        = (- EINVAL, w))
   \<and> rtdm_task_sleep_abs xn task_sleep wakeup_date (RTDM_TIMERMODE_ABSOLUTE xn) w
        = task_sleep wakeup_date (XN_ABSOLUTE xn) w
   \<and> rtdm_task_sleep_abs xn task_sleep wakeup_date (RTDM_TIMERMODE_REALTIME xn) w
        = task_sleep wakeup_date (XN_REALTIME xn) w"
  by (auto simp add: rtdm_task_sleep_abs_def RTDM_TIMERMODE_RELATIVE_def
      RTDM_TIMERMODE_ABSOLUTE_def RTDM_TIMERMODE_REALTIME_def)

theorem rtdm_task_sleep_abs_modes_witness:
  "XN_RELATIVE xntmode_numbering \<noteq> XN_ABSOLUTE xntmode_numbering
   \<and> XN_RELATIVE xntmode_numbering \<noteq> XN_REALTIME xntmode_numbering
   \<and> (7::c_int) \<noteq> RTDM_TIMERMODE_ABSOLUTE xntmode_numbering
   \<and> (7::c_int) \<noteq> RTDM_TIMERMODE_REALTIME xntmode_numbering
   \<and> rtdm_task_sleep_abs xntmode_numbering logging_sleep 5000 7 [] = (- 22, [])
   \<and> rtdm_task_sleep_abs xntmode_numbering logging_sleep 5000 (- 1) [] = (- 22, [])
   \<and> rtdm_task_sleep_abs xntmode_numbering logging_sleep 5000
        (RTDM_TIMERMODE_RELATIVE xntmode_numbering) [] = (- 22, [])
   \<and> rtdm_task_sleep_abs xntmode_numbering logging_sleep 5000 1 [] = (0, [(5000, 1)])
   \<and> rtdm_task_sleep_abs xntmode_numbering logging_sleep 5000 2 [] = (0, [(5000, 2)])"
  using rtdm_task_sleep_abs_modes [of 7 xntmode_numbering logging_sleep 5000 "[]"]
    rtdm_task_sleep_abs_modes [of "- 1" xntmode_numbering logging_sleep 5000 "[]"]
    rtdm_task_sleep_abs_modes [of 1 xntmode_numbering logging_sleep 5000 "[]"]
    rtdm_task_sleep_abs_modes [of 2 xntmode_numbering logging_sleep 5000 "[]"]
  by (simp add: logging_sleep_def EINVAL_def xntmode_numbering_def
      RTDM_TIMERMODE_RELATIVE_def RTDM_TIMERMODE_ABSOLUTE_def RTDM_TIMERMODE_REALTIME_def)

end
